theory Spec2Isabelle
  imports Complex_Main
begin

section \<open>Protein dataset registry: data source and registry\<close>

text \<open>
  A shallow embedding of \<^verbatim>\<open>src/data/sources.py\<close> (class \<^verbatim>\<open>PDBDataSource\<close>) and
  \<^verbatim>\<open>src/data/dataset.py\<close> (class \<^verbatim>\<open>ProteinDatasetRegistry\<close>).

  Python values that end up in dictionaries are values of the type \<open>json\<close>; a dictionary
  built by a literal is an association list in the order of the literal (\<open>JDict\<close> of it
  where it is stored inside another dictionary). The registry attribute
  \<^verbatim>\<open>self.proteins\<close>, the only dictionary the code updates by key, is a map. Floats are
  rationals (every finite double is one; NaN and the infinities are left out). Strings
  are byte strings, and \<^verbatim>\<open>str.lower\<close> is modelled on the ASCII letters.

  Exceptions (the subclasses of \<^verbatim>\<open>Exception\<close>) are values of the type \<open>error\<close>; a
  function that can raise returns \<open>error + 'a\<close>, and every \<^verbatim>\<open>try\<close>/\<^verbatim>\<open>except Exception\<close>
  of the source is a function of its own that handles the \<open>Inl\<close> case of the body.

  The file system and the network are explicit: a \<open>world\<close> holds the files and the
  number of HTTP requests made so far (directories, which the constructors create, are
  not modelled), and the collaborators the code calls into
  (\<^verbatim>\<open>requests.get\<close>, the Bio.PDB parser, \<^verbatim>\<open>json.dump\<close>/\<^verbatim>\<open>json.load\<close>, the interpreter's
  formatting of floats) are the fields of an \<open>env\<close>.
\<close>

subsection \<open>Values, errors, strings\<close>

datatype json =
    JNull
  | JBool bool
  | JInt int
  | JFloat rat
  | JStr string
  | JList "json list"
  | JDict "(string \<times> json) list"

datatype error =
    ValueError string
  | TypeError string
  | LibraryError string

text \<open>\<^verbatim>\<open>str(e)\<close>: the message of the exception.\<close>

fun str_of_error :: "error \<Rightarrow> string" where
  "str_of_error (ValueError m) = m"
| "str_of_error (TypeError m) = m"
| "str_of_error (LibraryError m) = m"

text \<open>\<^verbatim>\<open>str.lower\<close> on ASCII: the letters A to Z go to a to z, every other byte stays.\<close>

definition lower_char :: "char \<Rightarrow> char" where
  "lower_char c =
     (case map_of (zip ''ABCDEFGHIJKLMNOPQRSTUVWXYZ'' ''abcdefghijklmnopqrstuvwxyz'') c of
        None \<Rightarrow> c
      | Some d \<Rightarrow> d)"

definition lower :: "string \<Rightarrow> string" where
  "lower s = map lower_char s"

text \<open>Decimal rendering of Python integers, as an f-string does it.\<close>

fun show_nat :: "nat \<Rightarrow> string" where
  "show_nat n =
     (if n < 10 then [''0123456789'' ! n]
      else show_nat (n div 10) @ [''0123456789'' ! (n mod 10)])"

definition show_int :: "int \<Rightarrow> string" where
  "show_int i = (if i < 0 then CHR ''-'' # show_nat (nat (- i)) else show_nat (nat i))"

declare show_nat.simps [simp del]

text \<open>\<^verbatim>\<open>d.get(key, default)\<close> on a dictionary.\<close>

definition dict_get :: "(string \<times> json) list \<Rightarrow> string \<Rightarrow> json \<Rightarrow> json" where
  "dict_get d k dflt = (case map_of d k of None \<Rightarrow> dflt | Some v \<Rightarrow> v)"

text \<open>The keys of a value that is a dictionary, in order; other values have none.\<close>

fun keys :: "json \<Rightarrow> string list" where
  "keys (JDict d) = map fst d"
| "keys _ = []"

subsection \<open>Structures, the collaborators and the world\<close>

text \<open>
  A Bio.PDB structure: its header dictionary and the hierarchy model, chain, residue.
  Of a residue the code reads \<^verbatim>\<open>residue.id\<close>, the triple of hetero flag, sequence
  number and insertion code.
\<close>

record residue =
  resname :: string
  res_id :: "string \<times> int \<times> string"

record pdb_structure =
  header :: "(string \<times> json) list"
  models :: "residue list list list"

record world =
  files :: "string \<rightharpoonup> string"
  http_requests :: nat

text \<open>
  \<open>requests_get n url\<close> is the outcome of the HTTP GET that is the \<open>n\<close>-th request made
  (an exception, or a status code and a body), so that the network may answer the same
  URL differently each time. \<open>parser_get_structure id text\<close> is the parser's result
  on a file with that content.
\<close>

record env =
  cache_dir :: string
  requests_get :: "nat \<Rightarrow> string \<Rightarrow> error + nat \<times> string"
  parser_get_structure :: "string \<Rightarrow> string \<Rightarrow> error + pdb_structure"
  json_dump :: "(string \<rightharpoonup> json) \<Rightarrow> string"
  json_load :: "string \<Rightarrow> error + (string \<rightharpoonup> json)"
  py_repr :: "json \<Rightarrow> string"

text \<open>
  What an f-string prints for a value: \<^verbatim>\<open>None\<close>, booleans, integers and strings are
  written out; floats and containers are left to the interpreter's \<open>py_repr\<close>.
\<close>

fun py_str :: "env \<Rightarrow> json \<Rightarrow> string" where
  "py_str env JNull = ''None''"
| "py_str env (JBool b) = (if b then ''True'' else ''False'')"
| "py_str env (JInt i) = show_int i"
| "py_str env (JStr s) = s"
| "py_str env v = py_repr env v"

text \<open>The name of a value's type, for the message of a \<^verbatim>\<open>TypeError\<close>.\<close>

fun type_name :: "json \<Rightarrow> string" where
  "type_name JNull = ''NoneType''"
| "type_name (JBool b) = ''bool''"
| "type_name (JInt i) = ''int''"
| "type_name (JFloat x) = ''float''"
| "type_name (JStr s) = ''str''"
| "type_name (JList xs) = ''list''"
| "type_name (JDict d) = ''dict''"

text \<open>
  \<^verbatim>\<open>v > m\<close> for a float \<open>m\<close>: numbers (and booleans, which are integers) compare by
  value, anything else raises \<^verbatim>\<open>TypeError\<close>.
\<close>

fun gt_float :: "json \<Rightarrow> rat \<Rightarrow> error + bool" where
  "gt_float (JFloat x) m = Inr (m < x)"
| "gt_float (JInt i) m = Inr (m < of_int i)"
| "gt_float (JBool b) m = Inr (m < (if b then 1 else 0))"
| "gt_float v m =
     Inl (TypeError ([CHR 0x27] @ ''>'' @ [CHR 0x27] @ '' not supported between instances of ''
            @ [CHR 0x27] @ type_name v @ [CHR 0x27] @ '' and ''
            @ [CHR 0x27] @ ''float'' @ [CHR 0x27]))"

subsection \<open>\<^verbatim>\<open>PDBDataSource\<close>\<close>

definition pdb_url :: "string \<Rightarrow> string" where
  "pdb_url protein_id = ''https://files.rcsb.org/download/'' @ protein_id @ ''.pdb''"

text \<open>\<^verbatim>\<open>self.cache_dir / f"{protein_id}.pdb"\<close>.\<close>

definition cache_path :: "env \<Rightarrow> string \<Rightarrow> string" where
  "cache_path env protein_id = cache_dir env @ ''/'' @ protein_id @ ''.pdb''"

definition get_structure :: "env \<Rightarrow> string \<Rightarrow> world \<Rightarrow> (error + pdb_structure) \<times> world" where
  "get_structure env protein_id w =
     (let pid = lower protein_id;
          pdb_file = cache_path env pid
      in case files w pdb_file of
           Some text \<Rightarrow> (parser_get_structure env pid text, w)
         | None \<Rightarrow>
             (let w1 = w\<lparr>http_requests := Suc (http_requests w)\<rparr>
              in case requests_get env (http_requests w) (pdb_url pid) of
                   Inl e \<Rightarrow> (Inl e, w1)
                 | Inr (status_code, text) \<Rightarrow>
                     if status_code \<noteq> 200
                     then (Inl (ValueError (''Failed to download PDB: '' @ pid)), w1)
                     else (let w2 = w1\<lparr>files := (files w1)(pdb_file \<mapsto> text)\<rparr>
                           in (parser_get_structure env pid text, w2))))"

definition get_function ::
  "env \<Rightarrow> string \<Rightarrow> world \<Rightarrow> (error + (string \<times> json) list) \<times> world" where
  "get_function env protein_id w =
     (case get_structure env protein_id w of
        (Inl e, w1) \<Rightarrow> (Inl e, w1)
      | (Inr s, w1) \<Rightarrow>
          (Inr [(''id'', JStr protein_id),
                (''description'', dict_get (header s) ''name'' (JStr [])),
                (''resolution'', dict_get (header s) ''resolution'' JNull),
                (''structure_method'', dict_get (header s) ''structure_method'' (JStr [])),
                (''keywords'', dict_get (header s) ''keywords'' (JList [])),
                (''ec_numbers'', JList [])],
           w1))"

text \<open>
  The three nested loops of \<^verbatim>\<open>validate_structure\<close>, each a left fold that carries
  \<^verbatim>\<open>amino_acid_count\<close>.
\<close>

definition count_chain :: "residue list \<Rightarrow> nat \<Rightarrow> nat" where
  "count_chain chain amino_acid_count =
     foldl (\<lambda>n r. if fst (res_id r) = '' '' then n + 1 else n) amino_acid_count chain"

definition count_model :: "residue list list \<Rightarrow> nat \<Rightarrow> nat" where
  "count_model model amino_acid_count =
     foldl (\<lambda>n chain. count_chain chain n) amino_acid_count model"

definition count_structure :: "pdb_structure \<Rightarrow> nat" where
  "count_structure s = foldl (\<lambda>n model. count_model model n) 0 (models s)"

text \<open>The body of the \<^verbatim>\<open>try\<close> block of \<^verbatim>\<open>validate_structure\<close>.\<close>

definition validate_structure_try ::
  "env \<Rightarrow> string \<Rightarrow> rat \<Rightarrow> int \<Rightarrow> int \<Rightarrow> world
     \<Rightarrow> (error + bool \<times> (string \<times> json) list) \<times> world" where
  "validate_structure_try env protein_id max_res min_len max_len w =
     (case get_structure env protein_id w of
        (Inl e, w1) \<Rightarrow> (Inl e, w1)
      | (Inr s, w1) \<Rightarrow>
          (case get_function env protein_id w1 of
             (Inl e, w2) \<Rightarrow> (Inl e, w2)
           | (Inr function_info, w2) \<Rightarrow>
               (let resolution = dict_get function_info ''resolution'' JNull
                in case (if resolution = JNull then Inr True else gt_float resolution max_res) of
                     Inl e \<Rightarrow> (Inl e, w2)
                   | Inr exceeds \<Rightarrow>
                       if exceeds
                       then (Inr (False,
                               [(''reason'', JStr (''Resolution '' @ py_str env resolution
                                   @ '' > '' @ py_str env (JFloat max_res)))]), w2)
                       else
                         (let amino_acid_count = int (count_structure s)
                          in if amino_acid_count < min_len
                             then (Inr (False,
                                     [(''reason'', JStr (''Too short: ''
                                         @ show_int amino_acid_count
                                         @ '' < '' @ show_int min_len))]), w2)
                             else if amino_acid_count > max_len
                             then (Inr (False,
                                     [(''reason'', JStr (''Too long: ''
                                         @ show_int amino_acid_count
                                         @ '' > '' @ show_int max_len))]), w2)
                             else (Inr (True,
                                     [(''resolution'', resolution),
                                      (''amino_acid_count'', JInt amino_acid_count),
                                      (''has_ec_number'', JBool False)]), w2)))))"

text \<open>\<^verbatim>\<open>validate_structure\<close>: the body, and the handler of \<^verbatim>\<open>except Exception as e\<close>.\<close>

definition validate_structure ::
  "env \<Rightarrow> string \<Rightarrow> rat \<Rightarrow> int \<Rightarrow> int \<Rightarrow> world
     \<Rightarrow> (bool \<times> (string \<times> json) list) \<times> world" where
  "validate_structure env protein_id max_res min_len max_len w =
     (case validate_structure_try env protein_id max_res min_len max_len w of
        (Inr result, w1) \<Rightarrow> (result, w1)
      | (Inl e, w1) \<Rightarrow>
          ((False, [(''reason'', JStr (''Error: '' @ str_of_error e))]), w1))"

subsection \<open>\<^verbatim>\<open>ProteinDatasetRegistry\<close>\<close>

record selection_criteria =
  max_resolution :: rat
  min_length :: int
  max_length :: int
  require_ec :: bool

record registry =
  registry_file :: string
  proteins :: "string \<rightharpoonup> json"
  criteria :: selection_criteria

definition load_registry :: "env \<Rightarrow> string \<Rightarrow> world \<Rightarrow> error + (string \<rightharpoonup> json)" where
  "load_registry env path w =
     (case files w path of
        Some text \<Rightarrow> json_load env text
      | None \<Rightarrow> Inr Map.empty)"

text \<open>\<^verbatim>\<open>__init__\<close> with a data source given: the registry is loaded, the criteria are fixed.\<close>

definition init :: "env \<Rightarrow> string \<Rightarrow> world \<Rightarrow> error + registry" where
  "init env path w =
     (case load_registry env path w of
        Inl e \<Rightarrow> Inl e
      | Inr loaded \<Rightarrow>
          Inr \<lparr>registry_file = path, proteins = loaded,
               criteria = \<lparr>max_resolution = 25 / 10, min_length = 50, max_length = 300,
                           require_ec = True\<rparr>\<rparr>)"

definition save_registry :: "env \<Rightarrow> registry \<Rightarrow> world \<Rightarrow> world" where
  "save_registry env r w =
     w\<lparr>files := (files w)(registry_file r \<mapsto> json_dump env (proteins r))\<rparr>"

text \<open>
  The body of the \<^verbatim>\<open>try\<close> block of \<^verbatim>\<open>add_protein\<close>, entered with the lowercased id
  when it is not in the registry. \<open>now\<close> is \<^verbatim>\<open>pd.Timestamp.now().isoformat()\<close> at
  the time of the call.
\<close>

definition add_protein_try ::
  "env \<Rightarrow> string \<Rightarrow> string \<Rightarrow> registry \<Rightarrow> world \<Rightarrow> (error + json) \<times> world" where
  "add_protein_try env now protein_id r w =
     (case validate_structure env protein_id
             (max_resolution (criteria r)) (min_length (criteria r)) (max_length (criteria r)) w of
        ((is_valid, validation_info), w1) \<Rightarrow>
          (case get_function env protein_id w1 of
             (Inl e, w2) \<Rightarrow> (Inl e, w2)
           | (Inr function_info, w2) \<Rightarrow>
               (Inr (JDict
                  [(''protein_id'', JStr protein_id),
                   (''meets_criteria'', JBool is_valid),
                   (''validation_info'', JDict validation_info),
                   (''function_info'', JDict function_info),
                   (''evaluation_date'', JStr now)]),
                w2)))"

text \<open>
  \<^verbatim>\<open>add_protein\<close>: returns the evaluation, the registry and the world after the call.
\<close>

definition add_protein ::
  "env \<Rightarrow> string \<Rightarrow> string \<Rightarrow> registry \<times> world \<Rightarrow> json \<times> registry \<times> world" where
  "add_protein env now protein_id rw =
     (case rw of (r, w) \<Rightarrow>
        (let pid = lower protein_id
         in case proteins r pid of
              Some existing \<Rightarrow> (existing, r, w)
            | None \<Rightarrow>
                (case add_protein_try env now pid r w of
                   (Inr evaluation, w1) \<Rightarrow>
                     (evaluation, r\<lparr>proteins := (proteins r)(pid \<mapsto> evaluation)\<rparr>, w1)
                 | (Inl e, w1) \<Rightarrow>
                     (let evaluation = JDict
                            [(''protein_id'', JStr pid),
                             (''meets_criteria'', JBool False),
                             (''error'', JStr (str_of_error e)),
                             (''evaluation_date'', JStr now)]
                      in (evaluation, r\<lparr>proteins := (proteins r)(pid \<mapsto> evaluation)\<rparr>, w1)))))"

text \<open>
  A client that adds the ids of a list in order, each call at its own time:
  \<^verbatim>\<open>for pid in ids: registry.add_protein(pid)\<close>.
\<close>

fun add_all :: "env \<Rightarrow> (string \<times> string) list \<Rightarrow> registry \<times> world \<Rightarrow> registry \<times> world" where
  "add_all env [] rw = rw"
| "add_all env ((now, protein_id) # rest) rw =
     add_all env rest (snd (add_protein env now protein_id rw))"

subsection \<open>Example data\<close>

text \<open>
  A small world for concrete runs: the download of \<^verbatim>\<open>1crn\<close> succeeds and parses to a
  structure of sixty standard residues and two waters at resolution 1.5; \<^verbatim>\<open>1nmr\<close> is
  the same with seventy residues and no resolution in its header; the download of
  \<^verbatim>\<open>1bad\<close> succeeds and does not parse; every other download is answered 404. Its
  JSON codec knows two documents, the empty registry and a registry of one entry.
\<close>

definition ala :: residue where
  "ala = \<lparr>resname = ''ALA'', res_id = ('' '', 1, '' '')\<rparr>"

definition hoh :: residue where
  "hoh = \<lparr>resname = ''HOH'', res_id = (''W'', 1, '' '')\<rparr>"

definition ex_structure :: "nat \<Rightarrow> (string \<times> json) list \<Rightarrow> pdb_structure" where
  "ex_structure n hdr = \<lparr>header = hdr, models = [[replicate n ala @ [hoh], [hoh]]]\<rparr>"

definition ex_header :: "(string \<times> json) list" where
  "ex_header = [(''name'', JStr ''CRAMBIN''), (''resolution'', JFloat (3 / 2))]"

definition ex_env :: env where
  "ex_env =
     \<lparr>cache_dir = ''../data/raw'',
      requests_get = (\<lambda>n url.
         if url = pdb_url ''1crn'' then Inr (200, ''crambin'')
         else if url = pdb_url ''1nmr'' then Inr (200, ''nmr'')
         else if url = pdb_url ''1bad'' then Inr (200, ''garbage'')
         else Inr (404, ''Not Found'')),
      parser_get_structure = (\<lambda>pid text.
         if text = ''crambin'' then Inr (ex_structure 60 ex_header)
         else if text = ''nmr'' then Inr (ex_structure 70 [(''name'', JStr ''NMR MODEL'')])
         else Inl (LibraryError ''Invalid or missing coordinate(s)'')),
      json_dump = (\<lambda>m.
         case m ''1bad'' of None \<Rightarrow> ''{}'' | Some v \<Rightarrow> ''{1bad: {meets_criteria: false}}''),
      json_load = (\<lambda>text.
         if text = ''{}'' then Inr Map.empty
         else if text = ''{1bad: {meets_criteria: false}}''
         then Inr [''1bad'' \<mapsto> JDict [(''meets_criteria'', JBool False)]]
         else Inl (LibraryError ''Expecting value'')),
      py_repr = (\<lambda>v.
         if v = JFloat 1 then ''1.0''
         else if v = JFloat (3 / 2) then ''1.5''
         else if v = JFloat (5 / 2) then ''2.5''
         else ''?'')\<rparr>"

definition ex_world :: world where
  "ex_world = \<lparr>files = Map.empty, http_requests = 0\<rparr>"

definition ex_registry :: registry where
  "ex_registry =
     \<lparr>registry_file = ''../data/processed/protein_registry.json'', proteins = Map.empty,
      criteria = \<lparr>max_resolution = 25 / 10, min_length = 50, max_length = 300,
                  require_ec = True\<rparr>\<rparr>"

section \<open>Properties\<close>

subsection \<open>Helper facts\<close>

lemma lower_char_idem: "lower_char (lower_char c) = lower_char c"
  by (simp add: lower_char_def)

lemma lower_idem: "lower (lower s) = lower s"
  by (simp add: lower_def lower_char_idem)

lemma get_structure_lower:
  "get_structure env (lower protein_id) w = get_structure env protein_id w"
  by (simp add: get_structure_def lower_idem)

text \<open>Once a structure has been fetched and parsed, fetching it again reads the cache.\<close>

lemma get_structure_again:
  assumes "get_structure env protein_id w = (Inr s, w1)"
  shows "get_structure env protein_id w1 = (Inr s, w1)"
  using assms
  by (auto simp: get_structure_def Let_def split: option.splits sum.splits prod.splits if_splits)

lemma get_function_Inl:
  "get_structure env protein_id w = (Inl e, w1) \<Longrightarrow> get_function env protein_id w = (Inl e, w1)"
  by (simp add: get_function_def)

lemma validate_structure_try_Inl:
  "get_structure env protein_id w = (Inl e, w1) \<Longrightarrow>
   validate_structure_try env protein_id max_res min_len max_len w = (Inl e, w1)"
  by (simp add: validate_structure_try_def)

text \<open>The loops count the residues with a blank hetero flag, over all chains of all models.\<close>

lemma count_chain_filter:
  "count_chain chain n = n + length (filter (\<lambda>r. fst (res_id r) = '' '') chain)"
  unfolding count_chain_def by (induction chain arbitrary: n) auto

lemma count_model_filter:
  "count_model model n = n + length (filter (\<lambda>r. fst (res_id r) = '' '') (concat model))"
  unfolding count_model_def by (induction model arbitrary: n) (auto simp: count_chain_filter)

lemma count_structure_filter:
  "count_structure s = length (filter (\<lambda>r. fst (res_id r) = '' '') (concat (concat (models s))))"
proof -
  have "foldl (\<lambda>n model. count_model model n) k ms
          = k + length (filter (\<lambda>r. fst (res_id r) = '' '') (concat (concat ms)))" for k ms
    by (induction ms arbitrary: k) (auto simp: count_model_filter)
  then show ?thesis by (simp add: count_structure_def)
qed

text \<open>
  What \<open>validate_structure\<close> returns once the structure has been fetched and parsed: the
  second fetch, inside \<open>get_function\<close>, reads the cache and cannot fail.
\<close>

lemma validate_structure_fetched:
  assumes "get_structure env protein_id w = (Inr s, w1)"
  shows "validate_structure env protein_id max_res min_len max_len w =
     (let resolution = dict_get (header s) ''resolution'' JNull
      in case (if resolution = JNull then Inr True else gt_float resolution max_res) of
           Inl e \<Rightarrow> ((False, [(''reason'', JStr (''Error: '' @ str_of_error e))]), w1)
         | Inr exceeds \<Rightarrow>
             if exceeds
             then ((False, [(''reason'', JStr (''Resolution '' @ py_str env resolution
                              @ '' > '' @ py_str env (JFloat max_res)))]), w1)
             else if int (count_structure s) < min_len
             then ((False, [(''reason'', JStr (''Too short: '' @ show_int (int (count_structure s))
                              @ '' < '' @ show_int min_len))]), w1)
             else if int (count_structure s) > max_len
             then ((False, [(''reason'', JStr (''Too long: '' @ show_int (int (count_structure s))
                              @ '' > '' @ show_int max_len))]), w1)
             else ((True, [(''resolution'', resolution),
                           (''amino_acid_count'', JInt (int (count_structure s))),
                           (''has_ec_number'', JBool False)]), w1))"
  using assms get_structure_again [OF assms]
  by (simp add: validate_structure_def validate_structure_try_def get_function_def dict_get_def
        Let_def split: sum.splits)

text \<open>The example world, evaluated.\<close>

lemma header_ex_structure: "header (ex_structure n hdr) = hdr"
  by (simp add: ex_structure_def)

lemma count_ex_structure: "count_structure (ex_structure n hdr) = n"
  by (simp add: count_structure_filter ex_structure_def ala_def hoh_def)

lemma ex_get_structure_404:
  "get_structure ex_env ''1XYZ'' \<lparr>files = Map.empty, http_requests = k\<rparr>
     = (Inl (ValueError ''Failed to download PDB: 1xyz''),
        \<lparr>files = Map.empty, http_requests = Suc k\<rparr>)"
  by (simp add: get_structure_def ex_env_def lower_def lower_char_def pdb_url_def
        cache_path_def)

lemma ex_get_structure_bad:
  "get_structure ex_env ''1BAD'' ex_world
     = (Inl (LibraryError ''Invalid or missing coordinate(s)''),
        \<lparr>files = [''../data/raw/1bad.pdb'' \<mapsto> ''garbage''], http_requests = 1\<rparr>)"
  by (simp add: get_structure_def ex_env_def ex_world_def lower_def lower_char_def pdb_url_def
        cache_path_def)

lemma ex_get_structure_ok:
  "get_structure ex_env ''1CRN'' ex_world
     = (Inr (ex_structure 60 ex_header),
        \<lparr>files = [''../data/raw/1crn.pdb'' \<mapsto> ''crambin''], http_requests = 1\<rparr>)"
  by (simp add: get_structure_def ex_env_def ex_world_def lower_def lower_char_def pdb_url_def
        cache_path_def)

lemma ex_get_structure_nmr:
  "get_structure ex_env ''1NMR'' ex_world
     = (Inr (ex_structure 70 [(''name'', JStr ''NMR MODEL'')]),
        \<lparr>files = [''../data/raw/1nmr.pdb'' \<mapsto> ''nmr''], http_requests = 1\<rparr>)"
  by (simp add: get_structure_def ex_env_def ex_world_def lower_def lower_char_def pdb_url_def
        cache_path_def)

lemma lower_1xyz: "lower ''1XYZ'' = ''1xyz''"
  by (simp add: lower_def lower_char_def)

lemma ex_get_structure_404_lower:
  "get_structure ex_env ''1xyz'' \<lparr>files = Map.empty, http_requests = k\<rparr>
     = (Inl (ValueError ''Failed to download PDB: 1xyz''),
        \<lparr>files = Map.empty, http_requests = Suc k\<rparr>)"
  using ex_get_structure_404 [of k] get_structure_lower [of ex_env "''1XYZ''"]
  by (simp add: lower_1xyz)

lemma ex_add_protein_1crn:
  "max_resolution (criteria r) = 25 / 10 \<Longrightarrow> min_length (criteria r) = 50 \<Longrightarrow>
   max_length (criteria r) = 300 \<Longrightarrow> proteins r ''1crn'' = None \<Longrightarrow>
   add_protein ex_env now ''1CRN'' (r, ex_world)
     = (JDict [(''protein_id'', JStr ''1crn''),
               (''meets_criteria'', JBool True),
               (''validation_info'',
                  JDict [(''resolution'', JFloat (3 / 2)), (''amino_acid_count'', JInt 60),
                         (''has_ec_number'', JBool False)]),
               (''function_info'',
                  JDict [(''id'', JStr ''1crn''), (''description'', JStr ''CRAMBIN''),
                         (''resolution'', JFloat (3 / 2)), (''structure_method'', JStr []),
                         (''keywords'', JList []), (''ec_numbers'', JList [])]),
               (''evaluation_date'', JStr now)],
        r\<lparr>proteins := (proteins r)(''1crn'' \<mapsto>
           JDict [(''protein_id'', JStr ''1crn''),
               (''meets_criteria'', JBool True),
               (''validation_info'',
                  JDict [(''resolution'', JFloat (3 / 2)), (''amino_acid_count'', JInt 60),
                         (''has_ec_number'', JBool False)]),
               (''function_info'',
                  JDict [(''id'', JStr ''1crn''), (''description'', JStr ''CRAMBIN''),
                         (''resolution'', JFloat (3 / 2)), (''structure_method'', JStr []),
                         (''keywords'', JList []), (''ec_numbers'', JList [])]),
               (''evaluation_date'', JStr now)])\<rparr>,
        \<lparr>files = [''../data/raw/1crn.pdb'' \<mapsto> ''crambin''], http_requests = 1\<rparr>)"
proof -
  have l: "lower ''1CRN'' = ''1crn''"
    by (simp add: lower_def lower_char_def)
  have g: "get_structure ex_env ''1crn'' ex_world
     = (Inr (ex_structure 60 ex_header),
        \<lparr>files = [''../data/raw/1crn.pdb'' \<mapsto> ''crambin''], http_requests = 1\<rparr>)"
    using ex_get_structure_ok get_structure_lower [of ex_env "''1CRN''" ex_world] by (simp add: l)
  have g2: "get_structure ex_env ''1crn''
              \<lparr>files = [''../data/raw/1crn.pdb'' \<mapsto> ''crambin''], http_requests = Suc 0\<rparr>
     = (Inr (ex_structure 60 ex_header),
        \<lparr>files = [''../data/raw/1crn.pdb'' \<mapsto> ''crambin''], http_requests = Suc 0\<rparr>)"
    using get_structure_again [OF g] by simp
  assume a: "max_resolution (criteria r) = 25 / 10" "min_length (criteria r) = 50"
    "max_length (criteria r) = 300" "proteins r ''1crn'' = None"
  show ?thesis
    using a
    by (simp add: add_protein_def add_protein_try_def l validate_structure_fetched [OF g]
          get_function_def g2 header_ex_structure count_ex_structure
          ex_header_def dict_get_def Let_def)
qed

text \<open>Keys stay lowercase, and only the cache file of the lowercased id is written.\<close>

lemma add_protein_dom:
  "dom (proteins (fst (snd (add_protein env now protein_id (r, w)))))
     = insert (lower protein_id) (dom (proteins r))"
  by (auto simp: add_protein_def Let_def split: option.splits prod.splits sum.splits)

lemma add_all_dom:
  "dom (proteins (fst (add_all env calls rw)))
     = dom (proteins (fst rw)) \<union> lower ` snd ` set calls"
proof (induction calls arbitrary: rw)
  case Nil
  then show ?case by simp
next
  case (Cons c calls)
  obtain now protein_id where c: "c = (now, protein_id)" by (cases c)
  obtain r w where rw: "rw = (r, w)" by (cases rw)
  have "dom (proteins (fst (add_all env (c # calls) rw)))
          = dom (proteins (fst (add_all env calls (snd (add_protein env now protein_id (r, w))))))"
    by (simp add: c rw)
  also have "\<dots> = dom (proteins (fst (snd (add_protein env now protein_id (r, w)))))
                   \<union> lower ` snd ` set calls"
    by (rule Cons.IH)
  also have "\<dots> = insert (lower protein_id) (dom (proteins r)) \<union> lower ` snd ` set calls"
    by (simp only: add_protein_dom)
  also have "\<dots> = dom (proteins (fst rw)) \<union> lower ` snd ` set (c # calls)"
    by (simp add: c rw)
  finally show ?case .
qed

lemma init_fresh:
  "files w0 path = None \<Longrightarrow>
   init env path w0 = Inr \<lparr>registry_file = path, proteins = Map.empty,
        criteria = \<lparr>max_resolution = 25 / 10, min_length = 50, max_length = 300,
                    require_ec = True\<rparr>\<rparr>"
  by (simp add: init_def load_registry_def)

lemma add_all_keys_lower:
  assumes "\<forall>k \<in> dom (proteins r). lower k = k"
  shows "\<forall>k \<in> dom (proteins (fst (add_all env calls (r, w)))). lower k = k"
proof
  fix k
  assume "k \<in> dom (proteins (fst (add_all env calls (r, w))))"
  then have "k \<in> dom (proteins r) \<or> k \<in> lower ` snd ` set calls"
    by (simp add: add_all_dom)
  then show "lower k = k"
  proof
    assume "k \<in> dom (proteins r)"
    then show ?thesis using assms by blast
  next
    assume "k \<in> lower ` snd ` set calls"
    then obtain p where "k = lower p" by blast
    then show ?thesis by (simp add: lower_idem)
  qed
qed

lemma get_structure_files:
  "files (snd (get_structure env protein_id w)) = files w
   \<or> (\<exists>text. files (snd (get_structure env protein_id w))
                = (files w)(cache_path env (lower protein_id) \<mapsto> text))"
  by (auto simp: get_structure_def Let_def split: option.splits sum.splits prod.splits)

subsection \<open>Validation\<close>

text \<open>
  C2. \<open>validate_structure\<close> returns a pair on every input. Whenever the body of its
  \<^verbatim>\<open>try\<close> raises an exception \<open>e\<close>, and in particular whenever fetching or parsing
  the structure does (the request fails, the status is not 200, the parser rejects the
  file), the result is the failed validation whose reason is \<^verbatim>\<open>Error: \<close> followed by
  the message of \<open>e\<close>.
\<close>

theorem validate_structure_catches:
  "(validate_structure_try env protein_id max_res min_len max_len w = (Inl e, w1) \<longrightarrow>
      validate_structure env protein_id max_res min_len max_len w
        = ((False, [(''reason'', JStr (''Error: '' @ str_of_error e))]), w1))
   \<and> (get_structure env protein_id w = (Inl e, w1) \<longrightarrow>
      validate_structure env protein_id max_res min_len max_len w
        = ((False, [(''reason'', JStr (''Error: '' @ str_of_error e))]), w1))"
  by (simp add: validate_structure_def validate_structure_try_Inl)

theorem validate_structure_catches_witness:
  "validate_structure ex_env ''1XYZ'' (25 / 10) 50 300 ex_world
     = ((False, [(''reason'', JStr ''Error: Failed to download PDB: 1xyz'')]),
        \<lparr>files = Map.empty, http_requests = 1\<rparr>)
   \<and> validate_structure ex_env ''1BAD'' (25 / 10) 50 300 ex_world
     = ((False, [(''reason'', JStr ''Error: Invalid or missing coordinate(s)'')]),
        \<lparr>files = [''../data/raw/1bad.pdb'' \<mapsto> ''garbage''], http_requests = 1\<rparr>)"
  using validate_structure_catches [of ex_env "''1XYZ''" "25 / 10" 50 300 ex_world
          "ValueError ''Failed to download PDB: 1xyz''" "\<lparr>files = Map.empty, http_requests = 1\<rparr>"]
        validate_structure_catches [of ex_env "''1BAD''" "25 / 10" 50 300 ex_world
          "LibraryError ''Invalid or missing coordinate(s)''"
          "\<lparr>files = [''../data/raw/1bad.pdb'' \<mapsto> ''garbage''], http_requests = 1\<rparr>"]
        ex_get_structure_404 [of 0] ex_get_structure_bad
  by (simp add: ex_world_def)

text \<open>
  C5. For a structure that has been fetched and parsed: when the resolution of its
  header is the float \<open>max_res\<close> itself, the resolution check is passed, that is, the
  verdict is that of the length check alone; when it is a float strictly greater than
  \<open>max_res\<close>, validation fails with the reason \<^verbatim>\<open>Resolution x > max_res\<close>; when it
  is \<^verbatim>\<open>None\<close> or missing, validation fails whatever the threshold, with the reason
  \<^verbatim>\<open>Resolution None > max_res\<close>.
\<close>

theorem resolution_boundary:
  assumes "get_structure env protein_id w = (Inr s, w1)"
  shows "(dict_get (header s) ''resolution'' JNull = JFloat max_res \<longrightarrow>
            fst (fst (validate_structure env protein_id max_res min_len max_len w))
              = (min_len \<le> int (count_structure s) \<and> int (count_structure s) \<le> max_len))
       \<and> (dict_get (header s) ''resolution'' JNull = JFloat x \<and> max_res < x \<longrightarrow>
            fst (validate_structure env protein_id max_res min_len max_len w)
              = (False, [(''reason'', JStr (''Resolution '' @ py_repr env (JFloat x)
                           @ '' > '' @ py_repr env (JFloat max_res)))]))
       \<and> (dict_get (header s) ''resolution'' JNull = JNull \<longrightarrow>
            fst (validate_structure env protein_id max_res min_len max_len w)
              = (False, [(''reason'', JStr (''Resolution None > ''
                           @ py_repr env (JFloat max_res)))]))"
  by (auto simp: validate_structure_fetched [OF assms] Let_def)

theorem resolution_boundary_witness:
  "fst (fst (validate_structure ex_env ''1CRN'' (3 / 2) 50 300 ex_world))
   \<and> fst (validate_structure ex_env ''1CRN'' 1 50 300 ex_world)
       = (False, [(''reason'', JStr ''Resolution 1.5 > 1.0'')])
   \<and> fst (validate_structure ex_env ''1NMR'' (5 / 2) 50 300 ex_world)
       = (False, [(''reason'', JStr ''Resolution None > 2.5'')])"
  using resolution_boundary [OF ex_get_structure_ok, of "3 / 2" 50 300 "3 / 2"]
        resolution_boundary [OF ex_get_structure_ok, of 1 50 300 "3 / 2"]
        resolution_boundary [OF ex_get_structure_nmr, of "5 / 2" 50 300 0]
  by (simp add: header_ex_structure ex_header_def dict_get_def count_ex_structure ex_env_def)

text \<open>
  C6. For a structure fetched and parsed that passes the resolution check, and
  thresholds \<open>min_len \<le> max_len\<close>, with \<open>n\<close> the number of residues with a blank
  hetero flag over all chains of all models: \<open>n = min_len\<close> and \<open>n = max_len\<close> pass the
  length check, \<open>n = min_len - 1\<close> fails as too short and \<open>n = max_len + 1\<close> fails as
  too long.
\<close>

theorem length_boundary:
  assumes "get_structure env protein_id w = (Inr s, w1)"
    and "dict_get (header s) ''resolution'' JNull \<noteq> JNull"
    and "gt_float (dict_get (header s) ''resolution'' JNull) max_res = Inr False"
    and "min_len \<le> max_len"
  shows "let n = int (length (filter (\<lambda>r. fst (res_id r) = '' '') (concat (concat (models s)))))
         in (n = min_len \<or> n = max_len \<longrightarrow>
               fst (validate_structure env protein_id max_res min_len max_len w)
                 = (True, [(''resolution'', dict_get (header s) ''resolution'' JNull),
                           (''amino_acid_count'', JInt n),
                           (''has_ec_number'', JBool False)]))
          \<and> (n = min_len - 1 \<longrightarrow>
               fst (validate_structure env protein_id max_res min_len max_len w)
                 = (False, [(''reason'', JStr (''Too short: '' @ show_int n
                              @ '' < '' @ show_int min_len))]))
          \<and> (n = max_len + 1 \<longrightarrow>
               fst (validate_structure env protein_id max_res min_len max_len w)
                 = (False, [(''reason'', JStr (''Too long: '' @ show_int n
                              @ '' > '' @ show_int max_len))]))"
  using assms(2-4)
  by (auto simp: validate_structure_fetched [OF assms(1)] Let_def count_structure_filter)

theorem length_boundary_witness:
  "fst (validate_structure ex_env ''1CRN'' (25 / 10) 60 300 ex_world)
     = (True, [(''resolution'', JFloat (3 / 2)), (''amino_acid_count'', JInt 60),
               (''has_ec_number'', JBool False)])
   \<and> fst (validate_structure ex_env ''1CRN'' (25 / 10) 50 60 ex_world)
     = (True, [(''resolution'', JFloat (3 / 2)), (''amino_acid_count'', JInt 60),
               (''has_ec_number'', JBool False)])
   \<and> fst (validate_structure ex_env ''1CRN'' (25 / 10) 61 300 ex_world)
     = (False, [(''reason'', JStr ''Too short: 60 < 61'')])
   \<and> fst (validate_structure ex_env ''1CRN'' (25 / 10) 50 59 ex_world)
     = (False, [(''reason'', JStr ''Too long: 60 > 59'')])"
proof -
  have n: "int (length (filter (\<lambda>r. fst (res_id r) = '' '')
             (concat (concat (models (ex_structure 60 ex_header)))))) = 60"
    using count_ex_structure [of 60 ex_header] by (simp add: count_structure_filter)
  have res: "dict_get (header (ex_structure 60 ex_header)) ''resolution'' JNull = JFloat (3 / 2)"
    by (simp add: header_ex_structure ex_header_def dict_get_def)
  have h2: "dict_get (header (ex_structure 60 ex_header)) ''resolution'' JNull \<noteq> JNull"
    by (simp add: res)
  have h3: "gt_float (dict_get (header (ex_structure 60 ex_header)) ''resolution'' JNull) (25 / 10)
              = Inr False"
    by (simp add: res)
  show ?thesis
    using length_boundary [OF ex_get_structure_ok h2 h3, of 60 300]
          length_boundary [OF ex_get_structure_ok h2 h3, of 50 60]
          length_boundary [OF ex_get_structure_ok h2 h3, of 61 300]
          length_boundary [OF ex_get_structure_ok h2 h3, of 50 59]
    by (simp add: n res show_int_def show_nat.simps Let_def)
qed

subsection \<open>The registry\<close>

text \<open>
  C1. A second \<open>add_protein\<close> for the same id, at any later time and whatever the network
  would answer, returns the evaluation of the first call and leaves the registry and the
  world as the first call left them: nothing is fetched, parsed or validated again. The
  first evaluation is returned also when the criteria have been changed in between. The
  registry holds that evaluation under the lowercased id, its one new key.
\<close>

theorem add_protein_idempotent:
  "add_protein env2 now2 protein_id (snd (add_protein env now protein_id (r, w)))
     = add_protein env now protein_id (r, w)
   \<and> fst (add_protein env2 now2 protein_id
            ((fst (snd (add_protein env now protein_id (r, w))))\<lparr>criteria := c\<rparr>, w2))
       = fst (add_protein env now protein_id (r, w))
   \<and> proteins (fst (snd (add_protein env now protein_id (r, w)))) (lower protein_id)
       = Some (fst (add_protein env now protein_id (r, w)))
   \<and> dom (proteins (fst (snd (add_protein env now protein_id (r, w)))))
       = insert (lower protein_id) (dom (proteins r))"
  by (auto simp: add_protein_def Let_def split: option.splits prod.splits sum.splits)

text \<open>
  C3. For an id not yet in the registry, when \<open>get_function\<close> raises \<open>e\<close> after
  \<open>validate_structure\<close> has returned, \<open>add_protein\<close> returns, and stores under the
  lowercased id, the evaluation with \<open>meets_criteria\<close> false and \<open>error\<close> the message of
  \<open>e\<close>. A batch goes on with its remaining ids from that registry, and the evaluation
  of any other id is what it would have been without the failed entry.
\<close>

theorem add_protein_records_exception:
  assumes "proteins r (lower protein_id) = None"
    and "validate_structure env (lower protein_id) (max_resolution (criteria r))
           (min_length (criteria r)) (max_length (criteria r)) w = (v, w1)"
    and "get_function env (lower protein_id) w1 = (Inl e, w2)"
  shows "let evaluation = JDict [(''protein_id'', JStr (lower protein_id)),
                                 (''meets_criteria'', JBool False),
                                 (''error'', JStr (str_of_error e)),
                                 (''evaluation_date'', JStr now)];
             r1 = r\<lparr>proteins := (proteins r)(lower protein_id \<mapsto> evaluation)\<rparr>
         in add_protein env now protein_id (r, w) = (evaluation, r1, w2)
          \<and> add_all env ((now, protein_id) # rest) (r, w) = add_all env rest (r1, w2)
          \<and> (lower other \<noteq> lower protein_id \<longrightarrow>
               fst (add_protein env2 now2 other (r1, w3))
                 = fst (add_protein env2 now2 other (r, w3)))"
proof -
  obtain is_valid validation_info where v: "v = (is_valid, validation_info)"
    by (cases v)
  have t: "add_protein_try env now (lower protein_id) r w = (Inl e, w2)"
    using assms(2,3) by (simp add: add_protein_try_def v)
  have a: "add_protein env now protein_id (r, w)
           = (JDict [(''protein_id'', JStr (lower protein_id)),
                     (''meets_criteria'', JBool False),
                     (''error'', JStr (str_of_error e)),
                     (''evaluation_date'', JStr now)],
              r\<lparr>proteins := (proteins r)(lower protein_id \<mapsto>
                   JDict [(''protein_id'', JStr (lower protein_id)),
                          (''meets_criteria'', JBool False),
                          (''error'', JStr (str_of_error e)),
                          (''evaluation_date'', JStr now)])\<rparr>,
              w2)"
    using assms(1) t by (simp add: add_protein_def Let_def)
  have b: "lower other \<noteq> lower protein_id \<Longrightarrow>
           fst (add_protein env2 now2 other (r\<lparr>proteins := (proteins r)(lower protein_id \<mapsto> x)\<rparr>, w3))
             = fst (add_protein env2 now2 other (r, w3))" for x
    by (simp add: add_protein_def add_protein_try_def Let_def
          split: option.splits prod.splits sum.splits)
  show ?thesis
    unfolding Let_def using a b by simp
qed

theorem add_protein_records_exception_witness:
  "add_protein ex_env ''2026-01-05T09:30:00'' ''1XYZ'' (ex_registry, ex_world)
     = (JDict [(''protein_id'', JStr ''1xyz''),
               (''meets_criteria'', JBool False),
               (''error'', JStr ''Failed to download PDB: 1xyz''),
               (''evaluation_date'', JStr ''2026-01-05T09:30:00'')],
        ex_registry\<lparr>proteins := [''1xyz'' \<mapsto>
          JDict [(''protein_id'', JStr ''1xyz''),
                 (''meets_criteria'', JBool False),
                 (''error'', JStr ''Failed to download PDB: 1xyz''),
                 (''evaluation_date'', JStr ''2026-01-05T09:30:00'')]]\<rparr>,
        \<lparr>files = Map.empty, http_requests = 2\<rparr>)"
proof -
  have h1: "proteins ex_registry (lower ''1XYZ'') = None"
    by (simp add: ex_registry_def)
  have h2: "validate_structure ex_env (lower ''1XYZ'') (max_resolution (criteria ex_registry))
              (min_length (criteria ex_registry)) (max_length (criteria ex_registry)) ex_world
            = ((False, [(''reason'', JStr ''Error: Failed to download PDB: 1xyz'')]),
               \<lparr>files = Map.empty, http_requests = 1\<rparr>)"
    using ex_get_structure_404_lower [of 0]
    by (simp add: lower_1xyz validate_structure_def validate_structure_try_def ex_world_def)
  have h3: "get_function ex_env (lower ''1XYZ'') \<lparr>files = Map.empty, http_requests = 1\<rparr>
            = (Inl (ValueError ''Failed to download PDB: 1xyz''),
               \<lparr>files = Map.empty, http_requests = 2\<rparr>)"
    using ex_get_structure_404_lower [of 1]
    by (simp add: lower_1xyz get_function_def)
  show ?thesis
    using add_protein_records_exception [OF h1 h2 h3, of "''2026-01-05T09:30:00''"]
    by (simp add: Let_def lower_1xyz ex_registry_def)
qed

text \<open>
  C4, as the code has it. The evaluation \<open>add_protein\<close> returns, the mapping and the
  world it leaves depend on the criteria through \<open>max_resolution\<close>, \<open>min_length\<close> and
  \<open>max_length\<close> only: criteria that agree on these three give the same results, whatever
  \<open>require_ec\<close> is. For an id not yet recorded whose function summary is obtained,
  \<open>meets_criteria\<close> is the verdict of \<open>validate_structure\<close> at these three thresholds.
\<close>

theorem criteria_applied:
  assumes "max_resolution c = max_resolution (criteria r)"
    and "min_length c = min_length (criteria r)"
    and "max_length c = max_length (criteria r)"
  shows "fst (add_protein env now protein_id (r\<lparr>criteria := c\<rparr>, w))
           = fst (add_protein env now protein_id (r, w))
       \<and> proteins (fst (snd (add_protein env now protein_id (r\<lparr>criteria := c\<rparr>, w))))
           = proteins (fst (snd (add_protein env now protein_id (r, w))))
       \<and> snd (snd (add_protein env now protein_id (r\<lparr>criteria := c\<rparr>, w)))
           = snd (snd (add_protein env now protein_id (r, w)))
       \<and> (proteins r (lower protein_id) = None
            \<and> validate_structure env (lower protein_id) (max_resolution (criteria r))
                 (min_length (criteria r)) (max_length (criteria r)) w
               = ((is_valid, validation_info), w1)
            \<and> get_function env (lower protein_id) w1 = (Inr function_info, w2)
          \<longrightarrow> fst (add_protein env now protein_id (r, w))
               = JDict [(''protein_id'', JStr (lower protein_id)),
                        (''meets_criteria'', JBool is_valid),
                        (''validation_info'', JDict validation_info),
                        (''function_info'', JDict function_info),
                        (''evaluation_date'', JStr now)])"
  using assms
  by (auto simp: add_protein_def add_protein_try_def Let_def
        split: option.splits prod.splits sum.splits)

theorem criteria_applied_witness:
  "fst (add_protein ex_env ''2026-01-05T09:30:00'' ''1CRN''
          (ex_registry\<lparr>criteria := \<lparr>max_resolution = 25 / 10, min_length = 50,
                                       max_length = 300, require_ec = False\<rparr>\<rparr>, ex_world))
     = JDict [(''protein_id'', JStr ''1crn''),
              (''meets_criteria'', JBool True),
              (''validation_info'',
                 JDict [(''resolution'', JFloat (3 / 2)), (''amino_acid_count'', JInt 60),
                        (''has_ec_number'', JBool False)]),
              (''function_info'',
                 JDict [(''id'', JStr ''1crn''), (''description'', JStr ''CRAMBIN''),
                        (''resolution'', JFloat (3 / 2)), (''structure_method'', JStr []),
                        (''keywords'', JList []), (''ec_numbers'', JList [])]),
              (''evaluation_date'', JStr ''2026-01-05T09:30:00'')]"
proof -
  have h1: "max_resolution \<lparr>max_resolution = 25 / 10, min_length = 50, max_length = 300,
               require_ec = False\<rparr> = max_resolution (criteria ex_registry)"
    by (simp add: ex_registry_def)
  have h2: "min_length \<lparr>max_resolution = 25 / 10, min_length = 50, max_length = 300,
               require_ec = False\<rparr> = min_length (criteria ex_registry)"
    by (simp add: ex_registry_def)
  have h3: "max_length \<lparr>max_resolution = 25 / 10, min_length = 50, max_length = 300,
               require_ec = False\<rparr> = max_length (criteria ex_registry)"
    by (simp add: ex_registry_def)
  have e: "max_resolution (criteria ex_registry) = 25 / 10 \<and> min_length (criteria ex_registry) = 50
           \<and> max_length (criteria ex_registry) = 300 \<and> proteins ex_registry ''1crn'' = None"
    by (simp add: ex_registry_def)
  show ?thesis
    using criteria_applied [OF h1 h2 h3, of ex_env "''2026-01-05T09:30:00''" "''1CRN''" ex_world]
          e
    by (simp add: ex_add_protein_1crn)
qed

text \<open>
  C4, as stated, fails on \<open>require_ec\<close>. In the example the registry requires an EC
  annotation, the structure has none (\<open>has_ec_number\<close> is false, \<open>ec_numbers\<close> is empty)
  and the evaluation meets the criteria; with \<open>require_ec\<close> switched off the evaluation
  is the same.
\<close>

theorem require_ec_not_applied:
  "require_ec (criteria ex_registry)
   \<and> fst (add_protein ex_env ''2026-01-05T09:30:00'' ''1CRN'' (ex_registry, ex_world))
       = JDict [(''protein_id'', JStr ''1crn''),
               (''meets_criteria'', JBool True),
               (''validation_info'',
                  JDict [(''resolution'', JFloat (3 / 2)), (''amino_acid_count'', JInt 60),
                         (''has_ec_number'', JBool False)]),
               (''function_info'',
                  JDict [(''id'', JStr ''1crn''), (''description'', JStr ''CRAMBIN''),
                         (''resolution'', JFloat (3 / 2)), (''structure_method'', JStr []),
                         (''keywords'', JList []), (''ec_numbers'', JList [])]),
               (''evaluation_date'', JStr ''2026-01-05T09:30:00'')]
   \<and> fst (add_protein ex_env ''2026-01-05T09:30:00'' ''1CRN''
            (ex_registry\<lparr>criteria := (criteria ex_registry)\<lparr>require_ec := False\<rparr>\<rparr>, ex_world))
       = fst (add_protein ex_env ''2026-01-05T09:30:00'' ''1CRN'' (ex_registry, ex_world))"
proof -
  have a: "max_resolution (criteria r) = 25 / 10 \<and> min_length (criteria r) = 50
           \<and> max_length (criteria r) = 300 \<and> proteins r ''1crn'' = None"
    if "r = ex_registry \<or> r = ex_registry\<lparr>criteria := (criteria ex_registry)\<lparr>require_ec := False\<rparr>\<rparr>"
    for r
    using that by (auto simp: ex_registry_def)
  have b: "require_ec (criteria ex_registry)"
    by (simp add: ex_registry_def)
  show ?thesis
    using a [of ex_registry]
          a [of "ex_registry\<lparr>criteria := (criteria ex_registry)\<lparr>require_ec := False\<rparr>\<rparr>"]
    by (simp add: b ex_add_protein_1crn)
qed

text \<open>
  Saving and constructing a fresh registry on the same file: whatever else the world
  holds, the mapping of the fresh registry is what \<^verbatim>\<open>json.load\<close> makes of the text
  that \<^verbatim>\<open>json.dump\<close> wrote for the saved mapping.
\<close>

lemma load_after_save:
  "load_registry env (registry_file r) (save_registry env r w)
     = json_load env (json_dump env (proteins r))
   \<and> init env (registry_file r) (save_registry env r w)
     = (case json_load env (json_dump env (proteins r)) of
          Inl e \<Rightarrow> Inl e
        | Inr loaded \<Rightarrow>
            Inr \<lparr>registry_file = registry_file r, proteins = loaded,
                 criteria = \<lparr>max_resolution = 25 / 10, min_length = 50, max_length = 300,
                             require_ec = True\<rparr>\<rparr>)"
  by (simp add: init_def load_registry_def save_registry_def)

text \<open>
  C8, as the code has it. The evaluation that \<open>add_protein\<close> stores for an id not yet
  recorded has the keys \<open>protein_id\<close>, \<open>meets_criteria\<close>, \<open>validation_info\<close>,
  \<open>function_info\<close>, \<open>evaluation_date\<close>, or, when an exception was caught, the keys
  \<open>protein_id\<close>, \<open>meets_criteria\<close>, \<open>error\<close>, \<open>evaluation_date\<close>.
\<close>

theorem stored_evaluation_keys:
  assumes "proteins r (lower protein_id) = None"
  shows "proteins (fst (snd (add_protein env now protein_id (r, w)))) (lower protein_id)
           = Some (fst (add_protein env now protein_id (r, w)))
       \<and> (keys (fst (add_protein env now protein_id (r, w)))
             = [''protein_id'', ''meets_criteria'', ''validation_info'', ''function_info'',
                ''evaluation_date'']
          \<or> keys (fst (add_protein env now protein_id (r, w)))
             = [''protein_id'', ''meets_criteria'', ''error'', ''evaluation_date''])"
  using assms
  by (auto simp: add_protein_def add_protein_try_def Let_def
        split: option.splits prod.splits sum.splits)

theorem stored_evaluation_keys_witness:
  "keys (fst (add_protein ex_env ''2026-01-05T09:30:00'' ''1CRN'' (ex_registry, ex_world)))
     = [''protein_id'', ''meets_criteria'', ''validation_info'', ''function_info'',
        ''evaluation_date'']
   \<and> proteins (fst (snd (add_protein ex_env ''2026-01-05T09:30:00'' ''1CRN''
                            (ex_registry, ex_world)))) ''1crn''
     = Some (fst (add_protein ex_env ''2026-01-05T09:30:00'' ''1CRN'' (ex_registry, ex_world)))"
proof -
  have l: "lower ''1CRN'' = ''1crn''"
    by (simp add: lower_def lower_char_def)
  have h: "proteins ex_registry (lower ''1CRN'') = None"
    by (simp add: ex_registry_def)
  have e: "max_resolution (criteria ex_registry) = 25 / 10 \<and> min_length (criteria ex_registry) = 50
           \<and> max_length (criteria ex_registry) = 300 \<and> proteins ex_registry ''1crn'' = None"
    by (simp add: ex_registry_def)
  show ?thesis
    using stored_evaluation_keys [OF h, of ex_env "''2026-01-05T09:30:00''" ex_world] e
    by (simp add: l ex_add_protein_1crn)
qed

text \<open>
  C8, as stated, fails on the exception path: the record stored for an id whose
  download is answered 404 has neither \<open>validation_info\<close> nor \<open>function_info\<close>.
\<close>

theorem error_record_lacks_validation_info:
  "proteins (fst (snd (add_protein ex_env ''2026-01-05T09:30:00'' ''1XYZ'' (ex_registry, ex_world))))
     ''1xyz''
   = Some (JDict [(''protein_id'', JStr ''1xyz''),
                  (''meets_criteria'', JBool False),
                  (''error'', JStr ''Failed to download PDB: 1xyz''),
                  (''evaluation_date'', JStr ''2026-01-05T09:30:00'')])"
  by (simp add: add_protein_def add_protein_try_def validate_structure_def
        validate_structure_try_def get_function_def get_structure_def ex_env_def ex_world_def
        ex_registry_def lower_def lower_char_def pdb_url_def cache_path_def Let_def)

text \<open>
  C9. \<open>add_protein\<close> and \<open>get_structure\<close> do on an id what they do on the lowercased
  id, so that \<^verbatim>\<open>1LYZ\<close> and \<^verbatim>\<open>1lyz\<close> are one registry key and one cache file; the
  only file \<open>get_structure\<close> can write is the cache path of the lowercased id. After
  any sequence of \<open>add_protein\<close> calls the keys of the registry are the keys it had
  before and the lowercased ids of the calls: they are all lowercase when those it was
  loaded with are, and in particular for a registry constructed without a backing file.
\<close>

theorem protein_id_normalized:
  "add_protein env now protein_id rw = add_protein env now (lower protein_id) rw
   \<and> get_structure env protein_id w = get_structure env (lower protein_id) w
   \<and> (files (snd (get_structure env protein_id w)) = files w
      \<or> (\<exists>text. files (snd (get_structure env protein_id w))
                   = (files w)(cache_path env (lower protein_id) \<mapsto> text)))
   \<and> dom (proteins (fst (add_all env calls (r, w))))
       = dom (proteins r) \<union> lower ` snd ` set calls
   \<and> ((\<forall>k \<in> dom (proteins r). lower k = k) \<longrightarrow>
        (\<forall>k \<in> dom (proteins (fst (add_all env calls (r, w)))). lower k = k))
   \<and> (files w0 path = None \<longrightarrow>
        (\<exists>r0. init env path w0 = Inr r0
           \<and> (\<forall>k \<in> dom (proteins (fst (add_all env calls (r0, w)))). lower k = k)))"
proof (intro conjI)
  show "add_protein env now protein_id rw = add_protein env now (lower protein_id) rw"
    by (cases rw) (simp add: add_protein_def lower_idem)
  show "get_structure env protein_id w = get_structure env (lower protein_id) w"
    by (simp only: get_structure_lower)
  show "files (snd (get_structure env protein_id w)) = files w
      \<or> (\<exists>text. files (snd (get_structure env protein_id w))
                   = (files w)(cache_path env (lower protein_id) \<mapsto> text))"
    by (rule get_structure_files)
  show "dom (proteins (fst (add_all env calls (r, w))))
       = dom (proteins r) \<union> lower ` snd ` set calls"
    using add_all_dom [of env calls "(r, w)"] by simp
  show "(\<forall>k \<in> dom (proteins r). lower k = k) \<longrightarrow>
        (\<forall>k \<in> dom (proteins (fst (add_all env calls (r, w)))). lower k = k)"
    using add_all_keys_lower [of r env calls w] by blast
  show "files w0 path = None \<longrightarrow>
        (\<exists>r0. init env path w0 = Inr r0
           \<and> (\<forall>k \<in> dom (proteins (fst (add_all env calls (r0, w)))). lower k = k))"
  proof
    assume f: "files w0 path = None"
    have "\<forall>k \<in> dom (proteins \<lparr>registry_file = path, proteins = Map.empty,
        criteria = \<lparr>max_resolution = 25 / 10, min_length = 50, max_length = 300,
                    require_ec = True\<rparr>\<rparr>). lower k = k"
      by simp
    then show "\<exists>r0. init env path w0 = Inr r0
           \<and> (\<forall>k \<in> dom (proteins (fst (add_all env calls (r0, w)))). lower k = k)"
      using init_fresh [OF f, of env] add_all_keys_lower by blast
  qed
qed

theorem protein_id_normalized_witness:
  "add_protein ex_env ''2026-01-05T09:30:00'' ''1LYZ'' (ex_registry, ex_world)
     = add_protein ex_env ''2026-01-05T09:30:00'' ''1lyz'' (ex_registry, ex_world)
   \<and> ''1LYZ'' \<notin> dom (proteins (fst (add_all ex_env
          [(''2026-01-05T09:30:00'', ''1LYZ''), (''2026-01-05T09:31:00'', ''1CRN'')]
          (ex_registry\<lparr>proteins := [''1bad'' \<mapsto> JDict [(''meets_criteria'', JBool False)]]\<rparr>,
           ex_world))))"
proof -
  have l: "lower ''1LYZ'' = ''1lyz''"
    by (simp add: lower_def lower_char_def)
  have h: "\<forall>k \<in> dom (proteins (ex_registry\<lparr>proteins :=
             [''1bad'' \<mapsto> JDict [(''meets_criteria'', JBool False)]]\<rparr>)). lower k = k"
    by (simp add: lower_def lower_char_def)
  note t = protein_id_normalized [where env = ex_env and now = "''2026-01-05T09:30:00''"
            and protein_id = "''1LYZ''" and rw = "(ex_registry, ex_world)" and w = ex_world
            and r = "ex_registry\<lparr>proteins :=
                       [''1bad'' \<mapsto> JDict [(''meets_criteria'', JBool False)]]\<rparr>"
            and calls = "[(''2026-01-05T09:30:00'', ''1LYZ''), (''2026-01-05T09:31:00'', ''1CRN'')]"]
  have a: "add_protein ex_env ''2026-01-05T09:30:00'' ''1LYZ'' (ex_registry, ex_world)
             = add_protein ex_env ''2026-01-05T09:30:00'' ''1lyz'' (ex_registry, ex_world)"
    using t by (simp add: l)
  have b: "\<forall>k \<in> dom (proteins (fst (add_all ex_env
              [(''2026-01-05T09:30:00'', ''1LYZ''), (''2026-01-05T09:31:00'', ''1CRN'')]
              (ex_registry\<lparr>proteins := [''1bad'' \<mapsto> JDict [(''meets_criteria'', JBool False)]]\<rparr>,
               ex_world)))). lower k = k"
    using t h by blast
  have c: "''1LYZ'' \<notin> dom (proteins (fst (add_all ex_env
              [(''2026-01-05T09:30:00'', ''1LYZ''), (''2026-01-05T09:31:00'', ''1CRN'')]
              (ex_registry\<lparr>proteins := [''1bad'' \<mapsto> JDict [(''meets_criteria'', JBool False)]]\<rparr>,
               ex_world))))"
  proof
    assume "''1LYZ'' \<in> dom (proteins (fst (add_all ex_env
              [(''2026-01-05T09:30:00'', ''1LYZ''), (''2026-01-05T09:31:00'', ''1CRN'')]
              (ex_registry\<lparr>proteins := [''1bad'' \<mapsto> JDict [(''meets_criteria'', JBool False)]]\<rparr>,
               ex_world))))"
    then have "lower ''1LYZ'' = ''1LYZ''"
      using b by blast
    then show False
      by (simp add: l)
  qed
  show ?thesis
    using a c by blast
qed

text \<open>
  C10. The evaluation that \<open>add_protein\<close> returns is the record found in the registry
  under the lowercased id after the call, whichever path the call took.
\<close>

theorem add_protein_returns_stored:
  "proteins (fst (snd (add_protein env now protein_id (r, w)))) (lower protein_id)
     = Some (fst (add_protein env now protein_id (r, w)))"
  by (simp add: add_protein_def Let_def split: option.splits prod.splits sum.splits)

end
